theory Spec2Isabelle
  imports Complex_Main
begin

section \<open>Slope and deflection of a simply supported beam\<close>

text \<open>
  The script integrates the curvature of a uniformly loaded, simply supported beam twice
  with a running trapezoidal sum. Its arrays are modelled as lists of reals, so the
  values below are those of exact arithmetic. Rounding is modelled in the one place where
  it changes the shape of a result rather than its last digits: the number of samples of
  the mesh, which the library takes from a quotient of binary64 numbers. Exceptions of
  the interpreter are values of type \<open>exn\<close>.
\<close>

datatype exn = IndexError | UnboundLocalError | ZeroDivisionError

subsection \<open>Array primitives\<close>

text \<open>Reading \<open>a[i]\<close> with a non-negative index: out of range raises.\<close>

definition index :: "'a list \<Rightarrow> nat \<Rightarrow> exn + 'a" where
  "index a i = (if i < length a then Inr (a ! i) else Inl IndexError)"

text \<open>
  Division of two interpreter scalars raises on a zero denominator. Division of an
  array by a scalar does not raise: on a zero denominator the entry becomes infinite or
  NaN, which is not a real number and is written \<open>None\<close>.
\<close>

definition py_div :: "real \<Rightarrow> real \<Rightarrow> exn + real" where
  "py_div a b = (if b = 0 then Inl ZeroDivisionError else Inr (a / b))"

definition np_div :: "real \<Rightarrow> real \<Rightarrow> real option" where
  "np_div a b = (if b = 0 then None else Some (a / b))"

text \<open>
  Rounding to binary64: the nearest number with a significand of 53 bits, a tie going to
  the even significand. A positive number is scaled by powers of two into
  \<open>[2\<^sup>5\<^sup>2, 2\<^sup>5\<^sup>3)\<close>, where the representable numbers are the integers. The range of the
  exponent is not bounded, so overflow and subnormal numbers are not modelled.
\<close>

definition round_half_even :: "real \<Rightarrow> int" where
  "round_half_even y =
     (let f = \<lfloor>y\<rfloor>; r = y - of_int f
      in if r < 1 / 2 then f else if 1 / 2 < r then f + 1 else if even f then f else f + 1)"

function float64_pos :: "real \<Rightarrow> real" where
  "float64_pos x =
     (if x \<le> 0 then 0
      else if 2 ^ 53 \<le> x then 2 * float64_pos (x / 2)
      else if x < 2 ^ 52 then float64_pos (2 * x) / 2
      else of_int (round_half_even x))"
  by pat_completeness auto
termination
proof (relation "measure (\<lambda>x. nat \<bar>\<lfloor>log 2 x\<rfloor> - 52\<bar>)")
  show "wf (measure (\<lambda>x. nat \<bar>\<lfloor>log 2 x\<rfloor> - 52\<bar>))" by simp
next
  fix x :: real
  assume x: "\<not> x \<le> 0" "2 ^ 53 \<le> x"
  have e: "log 2 ((2::real) ^ 53) = real 53" by (rule log_pow_cancel) simp_all
  from x have "log 2 (2 ^ 53) \<le> log 2 x"
    by (subst log_le_cancel_iff) simp_all
  then have "53 \<le> log 2 x" unfolding e by simp
  then have "53 \<le> \<lfloor>log 2 x\<rfloor>" by (simp add: le_floor_iff)
  moreover from x have "\<lfloor>log 2 (x / 2)\<rfloor> = \<lfloor>log 2 x\<rfloor> - 1" by (simp add: log_divide)
  ultimately show "(x / 2, x) \<in> measure (\<lambda>x. nat \<bar>\<lfloor>log 2 x\<rfloor> - 52\<bar>)" by simp
next
  fix x :: real
  assume x: "\<not> x \<le> 0" "\<not> 2 ^ 53 \<le> x" "x < 2 ^ 52"
  have e: "log 2 ((2::real) ^ 52) = real 52" by (rule log_pow_cancel) simp_all
  from x have "log 2 x < log 2 (2 ^ 52)"
    by (subst log_less_cancel_iff) simp_all
  then have "log 2 x < 52" unfolding e by simp
  then have "\<lfloor>log 2 x\<rfloor> < 52" by (simp add: floor_less_iff)
  moreover from x have "\<lfloor>log 2 (2 * x)\<rfloor> = \<lfloor>log 2 x\<rfloor> + 1" by (simp add: log_mult)
  ultimately show "(2 * x, x) \<in> measure (\<lambda>x. nat \<bar>\<lfloor>log 2 x\<rfloor> - 52\<bar>)" by simp
qed

declare float64_pos.simps [simp del]

definition float64 :: "real \<Rightarrow> real" where
  "float64 x = (if x < 0 then - float64_pos (- x) else float64_pos x)"

text \<open>
  \<open>np.arange(start, stop, step)\<close>. The number of samples is the ceiling of
  \<open>(stop - start) / step\<close> as the library computes it: the difference and the quotient of
  binary64 numbers, each rounded. The quotient raises for a zero step. The samples are
  \<open>start + i * step\<close>.
\<close>

definition sample_count :: "real \<Rightarrow> real \<Rightarrow> real \<Rightarrow> nat" where
  "sample_count start stop step =
     nat \<lceil>float64 (float64 (float64 stop - float64 start) / float64 step)\<rceil>"

definition arange :: "real \<Rightarrow> real \<Rightarrow> real \<Rightarrow> exn + real list" where
  "arange start stop step =
     (if step = 0 then Inl ZeroDivisionError
      else Inr (map (\<lambda>i. start + real i * step) [0..<sample_count start stop step]))"

subsection \<open>The pipeline stages\<close>

text \<open>The moment expression of line 27, for one position.\<close>

definition moment :: "real \<Rightarrow> real \<Rightarrow> real \<Rightarrow> real" where
  "moment x_pos load len = (x_pos * (load * len) / 2) - (load * x_pos * (x_pos / 2))"

definition get_bending_moments :: "real list \<Rightarrow> real \<Rightarrow> real \<Rightarrow> real list" where
  "get_bending_moments x_axis load len =
     fold (\<lambda>i bending_moment. bending_moment @ [moment (x_axis ! i) load len])
       [0..<length x_axis] []"

definition get_curvatures :: "real list \<Rightarrow> real \<Rightarrow> real \<Rightarrow> real list option" where
  "get_curvatures bending_moment_list modulus inertia =
     those (map (\<lambda>m. np_div m (modulus * inertia)) bending_moment_list)"

text \<open>
  The loop of \<open>get_slopes\<close> over the remaining indices. The local \<open>slope\<close> is unbound
  until the iteration \<open>i = 0\<close> has assigned it.
\<close>

fun slopes_loop ::
  "real \<Rightarrow> real list \<Rightarrow> real \<Rightarrow> nat list \<Rightarrow> real option \<Rightarrow> real list \<Rightarrow> exn + real list" where
  "slopes_loop dx curvature_list slope_init [] slope slope_list = Inr slope_list"
| "slopes_loop dx curvature_list slope_init (i # rest) slope slope_list =
     (if i = 0 then
        slopes_loop dx curvature_list slope_init rest (Some slope_init) (slope_list @ [slope_init])
      else
        (case slope of
           None \<Rightarrow> Inl UnboundLocalError
         | Some s \<Rightarrow>
            (case index curvature_list i of
               Inl e \<Rightarrow> Inl e
             | Inr k_i \<Rightarrow>
                (case index curvature_list (i - 1) of
                   Inl e \<Rightarrow> Inl e
                 | Inr k_p \<Rightarrow>
                    slopes_loop dx curvature_list slope_init rest
                      (Some (s + (dx / 2) * (k_i + k_p)))
                      (slope_list @ [s + (dx / 2) * (k_i + k_p)])))))"

definition get_slopes :: "real \<Rightarrow> real list \<Rightarrow> real list \<Rightarrow> real \<Rightarrow> exn + real list" where
  "get_slopes dx x_axis curvature_list slope_init =
     slopes_loop dx curvature_list slope_init [0..<length x_axis] None []"

fun deflections_loop ::
  "real \<Rightarrow> real list \<Rightarrow> nat list \<Rightarrow> real option \<Rightarrow> real list \<Rightarrow> exn + real list" where
  "deflections_loop dx slope_list [] deflection deflection_list = Inr deflection_list"
| "deflections_loop dx slope_list (i # rest) deflection deflection_list =
     (if i = 0 then
        deflections_loop dx slope_list rest (Some 0) (deflection_list @ [0])
      else
        (case deflection of
           None \<Rightarrow> Inl UnboundLocalError
         | Some d \<Rightarrow>
            (case index slope_list i of
               Inl e \<Rightarrow> Inl e
             | Inr s_i \<Rightarrow>
                (case index slope_list (i - 1) of
                   Inl e \<Rightarrow> Inl e
                 | Inr s_p \<Rightarrow>
                    deflections_loop dx slope_list rest
                      (Some (d + (dx / 2) * (s_i + s_p)))
                      (deflection_list @ [d + (dx / 2) * (s_i + s_p)])))))"

definition get_deflections :: "real \<Rightarrow> real list \<Rightarrow> real list \<Rightarrow> exn + real list" where
  "get_deflections dx x_axis slope_list =
     deflections_loop dx slope_list [0..<length x_axis] None []"

subsection \<open>The entry routine\<close>

text \<open>Lines 67 and 68: the mesh, with the end of the span appended.\<close>

definition space_mesh :: "real \<Rightarrow> real \<Rightarrow> exn + real list" where
  "space_mesh len dx =
     (case arange 0 len dx of Inl e \<Rightarrow> Inl e | Inr x_axis \<Rightarrow> Inr (x_axis @ [len]))"

text \<open>What \<open>main\<close> shows: the four plotted sequences and the three printed numbers.\<close>

record report =
  plotted_x_axis :: "real list"
  plotted_bending_moment :: "real list"
  plotted_curvature :: "real list"
  plotted_slope :: "real list"
  plotted_deflection :: "real list"
  printed_deflection_mid :: real
  printed_deflection_mid_theor :: real
  printed_error :: "real option"

text \<open>
  Lines 76 to 84: the slopes from the seed \<open>slope_init_0\<close>, their value at the middle
  index, and the slopes from the corrected seed.
\<close>

definition corrected_slopes :: "real \<Rightarrow> real list \<Rightarrow> real list \<Rightarrow> exn + real list" where
  "corrected_slopes dx x_axis curvature_list =
     (let slope_init_0 = 0 in
      case get_slopes dx x_axis curvature_list slope_init_0 of
        Inl e \<Rightarrow> Inl e
      | Inr slope_list \<Rightarrow>
         (case index slope_list (length slope_list div 2) of
            Inl e \<Rightarrow> Inl e
          | Inr slope_midspan \<Rightarrow>
             (let slope_error = 0 - slope_midspan;
                  slope_init_1 = slope_init_0 + slope_error
              in get_slopes dx x_axis curvature_list slope_init_1)))"

text \<open>
  The body of \<open>main\<close> for given constants. A curvature array with infinite or NaN
  entries arises only from a zero flexural rigidity; the arrays keep their lengths
  through both integrators, and the scalar quotient of line 99 then raises on the same
  zero denominator. The quotient of line 102 has an array element in its numerator, so
  it does not raise; the error is printed before rounding.
\<close>

definition run :: "real \<Rightarrow> real \<Rightarrow> real \<Rightarrow> real \<Rightarrow> real \<Rightarrow> exn + report" where
  "run load len dx inertia modulus =
     (case space_mesh len dx of
        Inl e \<Rightarrow> Inl e
      | Inr x_axis \<Rightarrow>
         (let bending_moment_list = get_bending_moments x_axis load len in
          case get_curvatures bending_moment_list modulus inertia of
            None \<Rightarrow> Inl ZeroDivisionError
          | Some curvature_list \<Rightarrow>
             (case corrected_slopes dx x_axis curvature_list of
                Inl e \<Rightarrow> Inl e
              | Inr slope_list \<Rightarrow>
                 (case get_deflections dx x_axis slope_list of
                    Inl e \<Rightarrow> Inl e
                  | Inr deflection_list \<Rightarrow>
                     (case index deflection_list (length deflection_list div 2) of
                        Inl e \<Rightarrow> Inl e
                      | Inr deflection_mid \<Rightarrow>
                         (case py_div (- (5 / 384) * (load * len ^ 4)) (modulus * inertia) of
                            Inl e \<Rightarrow> Inl e
                          | Inr deflection_mid_theor \<Rightarrow>
                             (let error = np_div \<bar>deflection_mid_theor - deflection_mid\<bar>
                                            deflection_mid_theor
                              in Inr \<lparr>plotted_x_axis = x_axis,
                                      plotted_bending_moment = bending_moment_list,
                                      plotted_curvature = curvature_list,
                                      plotted_slope = slope_list,
                                      plotted_deflection = deflection_list,
                                      printed_deflection_mid = deflection_mid,
                                      printed_deflection_mid_theor = deflection_mid_theor,
                                      printed_error = error\<rparr>)))))))"

definition main :: "exn + report" where
  "main = run (10 * 10 ^ 3) 5 0.1 ((1 / 12) * 0.3 * 0.5 ^ 3) (30 * 10 ^ 9)"

subsection \<open>Specification functions\<close>

text \<open>
  The running trapezoidal sum over the consecutive pairs of a sequence, without indices:
  both integrators are characterised by it below.
\<close>

fun trapezoid :: "real \<Rightarrow> real \<Rightarrow> real list \<Rightarrow> real list" where
  "trapezoid dx s (a # b # rest) =
     (s + (dx / 2) * (b + a)) # trapezoid dx (s + (dx / 2) * (b + a)) (b # rest)"
| "trapezoid dx s rest = []"

text \<open>
  The recurrence of section 4.4 of the specification, for a step that may depend on the
  index: \<open>\<theta>\<^sub>0\<close> is the seed and \<open>\<theta>\<^sub>i = \<theta>\<^sub>i\<^sub>-\<^sub>1 + (step i / 2) (\<kappa>\<^sub>i + \<kappa>\<^sub>i\<^sub>-\<^sub>1)\<close>.
\<close>

definition trapezoid_recurrence ::
  "(nat \<Rightarrow> real) \<Rightarrow> real list \<Rightarrow> real \<Rightarrow> real list \<Rightarrow> bool" where
  "trapezoid_recurrence step kappa seed theta =
     ((case theta of [] \<Rightarrow> True | theta_0 # rest \<Rightarrow> theta_0 = seed) \<and>
      list_all (\<lambda>i. theta ! i = theta ! (i - 1) + (step i / 2) * (kappa ! i + kappa ! (i - 1)))
        [1..<length theta])"

text \<open>The local step of a mesh at index \<open>i\<close>, and the nominal step.\<close>

definition local_step :: "real list \<Rightarrow> nat \<Rightarrow> real" where
  "local_step x_axis i = x_axis ! i - x_axis ! (i - 1)"

definition nominal_step :: "real \<Rightarrow> nat \<Rightarrow> real" where
  "nominal_step dx i = dx"

subsection \<open>The bending moment\<close>

lemma get_bending_moments_fold:
  "fold (\<lambda>i acc. acc @ [f (xs ! i)]) [0..<n] acc0 = acc0 @ map (\<lambda>i. f (xs ! i)) [0..<n]"
  by (induction n arbitrary: acc0) simp_all

lemma get_bending_moments_map:
  "get_bending_moments x_axis load len = map (\<lambda>x. moment x load len) x_axis"
proof -
  have "get_bending_moments x_axis load len
          = map (\<lambda>i. moment (x_axis ! i) load len) [0..<length x_axis]"
    unfolding get_bending_moments_def
    using get_bending_moments_fold [where f = "\<lambda>x. moment x load len" and ?acc0.0 = "[]"]
    by simp
  also have "\<dots> = map (\<lambda>x. moment x load len) (map ((!) x_axis) [0..<length x_axis])"
    by simp
  finally show ?thesis by (simp only: map_nth)
qed

lemma moment_square: "moment x w L = w * L\<^sup>2 / 8 - (w / 2) * (x - L / 2)\<^sup>2"
  by (simp add: moment_def power2_eq_square algebra_simps)

subsection \<open>The integrators as running trapezoidal sums\<close>

lemma trapezoid_short: "length l \<le> 1 \<Longrightarrow> trapezoid dx s l = []"
  by (cases l; cases "tl l") simp_all

lemma length_trapezoid: "length (trapezoid dx s l) = length l - 1"
  by (induction dx s l rule: trapezoid.induct) simp_all

lemma trapezoid_shift: "trapezoid dx (s + c) l = map (\<lambda>v. v + c) (trapezoid dx s l)"
  by (induction dx s l arbitrary: c rule: trapezoid.induct) (simp_all add: algebra_simps)

lemma trapezoid_nth:
  "Suc i < length l \<Longrightarrow>
   (s # trapezoid dx s l) ! Suc i = (s # trapezoid dx s l) ! i + (dx / 2) * (l ! Suc i + l ! i)"
proof (induction dx s l arbitrary: i rule: trapezoid.induct)
  case (1 dx s a b rest)
  show ?case
  proof (cases i)
    case 0
    then show ?thesis by simp
  next
    case (Suc j)
    with 1 show ?thesis by simp
  qed
qed simp_all

lemma slopes_loop_trapezoid:
  "n \<le> length ks \<Longrightarrow>
   slopes_loop dx ks seed [Suc a..<n] (Some s) acc
     = Inr (acc @ trapezoid dx s (drop a (take n ks)))"
proof (induction "n - Suc a" arbitrary: a s acc)
  case 0
  then have "length (drop a (take n ks)) \<le> 1" by simp
  with 0 show ?case by (simp add: trapezoid_short)
next
  case (Suc m)
  then have lt: "Suc a < n" and m: "m = n - Suc (Suc a)" by simp_all
  let ?s = "s + (dx / 2) * (ks ! Suc a + ks ! a)"
  have d: "drop a (take n ks) = ks ! a # ks ! Suc a # drop (Suc (Suc a)) (take n ks)"
    using lt Suc.prems by (simp add: Cons_nth_drop_Suc [symmetric])
  have d': "drop (Suc a) (take n ks) = ks ! Suc a # drop (Suc (Suc a)) (take n ks)"
    using lt Suc.prems by (simp add: Cons_nth_drop_Suc [symmetric])
  have "slopes_loop dx ks seed [Suc a..<n] (Some s) acc
          = slopes_loop dx ks seed [Suc (Suc a)..<n] (Some ?s) (acc @ [?s])"
    using lt Suc.prems by (simp add: upt_conv_Cons index_def)
  also have "\<dots> = Inr ((acc @ [?s]) @ trapezoid dx ?s (drop (Suc a) (take n ks)))"
    using Suc.hyps(1) [OF m Suc.prems] .
  finally show ?case by (simp add: d d')
qed

lemma slopes_loop_raises:
  "length ks < n \<Longrightarrow> Suc a < n \<Longrightarrow>
   slopes_loop dx ks seed [Suc a..<n] (Some s) acc = Inl IndexError"
proof (induction "n - Suc a" arbitrary: a s acc)
  case 0
  then show ?case by simp
next
  case (Suc m)
  show ?case
  proof (cases "Suc a < length ks")
    case True
    with Suc.prems have lt: "Suc (Suc a) < n" by simp
    from Suc.hyps(2) have m: "m = n - Suc (Suc a)" by simp
    let ?s = "s + (dx / 2) * (ks ! Suc a + ks ! a)"
    have "slopes_loop dx ks seed [Suc a..<n] (Some s) acc
            = slopes_loop dx ks seed [Suc (Suc a)..<n] (Some ?s) (acc @ [?s])"
      using True Suc.prems by (simp add: upt_conv_Cons index_def)
    also have "\<dots> = Inl IndexError"
      using Suc.hyps(1) [OF m Suc.prems(1) lt] .
    finally show ?thesis .
  next
    case False
    with Suc.prems show ?thesis by (simp add: upt_conv_Cons index_def)
  qed
qed

lemma get_slopes_cases:
  "get_slopes dx x_axis ks seed =
     (if x_axis = [] then Inr []
      else if length x_axis \<le> max 1 (length ks)
           then Inr (seed # trapezoid dx seed (take (length x_axis) ks))
           else Inl IndexError)"
proof (cases "x_axis = []")
  case True
  then show ?thesis by (simp add: get_slopes_def)
next
  case False
  then have u: "[0..<length x_axis] = 0 # [Suc 0..<length x_axis]"
    by (simp add: upt_conv_Cons)
  have g: "get_slopes dx x_axis ks seed
             = slopes_loop dx ks seed [Suc 0..<length x_axis] (Some seed) [seed]"
    by (simp add: get_slopes_def u)
  have "(length x_axis \<le> length ks) \<or> (length ks < length x_axis \<and> length x_axis = 1)
          \<or> (length ks < length x_axis \<and> 1 < length x_axis)"
  proof -
    from False have "0 < length x_axis" by simp
    then show ?thesis by linarith
  qed
  then consider (fits) "length x_axis \<le> length ks"
    | (single) "length ks < length x_axis" "length x_axis = 1"
    | (short) "length ks < length x_axis" "1 < length x_axis"
    by blast
  then show ?thesis
  proof cases
    case fits
    then show ?thesis
      using False slopes_loop_trapezoid [OF fits, of dx seed 0 seed "[seed]"] by (simp add: g)
  next
    case single
    then show ?thesis unfolding g using False by (simp add: trapezoid_short)
  next
    case short
    then show ?thesis
      using False slopes_loop_raises [of ks "length x_axis" 0 dx seed seed "[seed]"]
      by (simp add: g)
  qed
qed

lemma deflections_loop_slopes_loop:
  "deflections_loop dx sl is d acc = slopes_loop dx sl 0 is d acc"
  by (induction "is" arbitrary: d acc) (simp_all split: option.splits sum.splits)

lemma get_deflections_get_slopes: "get_deflections dx xs sl = get_slopes dx xs sl 0"
  by (simp add: get_deflections_def get_slopes_def deflections_loop_slopes_loop)

lemma get_slopes_length:
  assumes ret: "get_slopes dx x_axis ks seed = Inr sl"
  shows "length sl = length x_axis"
proof (cases "x_axis = []")
  case True
  with ret show ?thesis by (simp add: get_slopes_cases)
next
  case False
  then have pos: "0 < length x_axis" by simp
  from ret False have b: "length x_axis \<le> max 1 (length ks)"
    and sl: "sl = seed # trapezoid dx seed (take (length x_axis) ks)"
    by (auto simp: get_slopes_cases split: if_splits)
  have "length sl = Suc (min (length ks) (length x_axis) - 1)"
    by (simp add: sl length_trapezoid)
  with pos b show ?thesis by arith
qed

lemma get_slopes_shift:
  assumes "get_slopes dx x_axis ks t = Inr b"
  shows "get_slopes dx x_axis ks (t + c) = Inr (map (\<lambda>v. v + c) b)"
  using assms by (auto simp: get_slopes_cases trapezoid_shift split: if_splits)

lemma get_slopes_seed:
  "get_slopes dx x_axis ks seed = Inr sl \<Longrightarrow> x_axis \<noteq> [] \<Longrightarrow> sl ! 0 = seed"
  by (auto simp: get_slopes_cases split: if_splits)

lemma get_slopes_step:
  assumes "get_slopes dx x_axis ks seed = Inr sl" and i: "0 < i" "i < length x_axis"
  shows "sl ! i = sl ! (i - 1) + (dx / 2) * (ks ! i + ks ! (i - 1))"
proof -
  from i obtain j where j: "i = Suc j" by (cases i) auto
  let ?l = "take (length x_axis) ks"
  from assms have sl: "sl = seed # trapezoid dx seed ?l" and le: "length x_axis \<le> length ks"
    by (auto simp: get_slopes_cases split: if_splits)
  have "Suc j < length ?l" using i le j by simp
  from trapezoid_nth [OF this, of seed dx] show ?thesis
    using i le j by (simp add: sl)
qed

subsection \<open>The bending moment and the curvature\<close>

text \<open>
  Claim C4. The bending moment vanishes at both supports: for every load \<open>w\<close> and length
  \<open>L\<close> the moment expression is 0 at \<open>x = 0\<close> and at \<open>x = L\<close>, so a mesh whose first
  point is 0 and whose last point is \<open>L\<close> has 0 in the first and in the last position of
  its moment sequence.
\<close>

theorem moment_zero_at_supports:
  "moment 0 w L = 0 \<and> moment L w L = 0 \<and>
   (x_axis \<noteq> [] \<longrightarrow> x_axis ! 0 = 0 \<longrightarrow> x_axis ! (length x_axis - 1) = L \<longrightarrow>
      index (get_bending_moments x_axis w L) 0 = Inr 0 \<and>
      index (get_bending_moments x_axis w L) (length x_axis - 1) = Inr 0)"
  by (simp add: moment_def get_bending_moments_map index_def)

theorem moment_zero_at_supports_witness:
  "[0, 1, 3] \<noteq> ([] :: real list) \<and> [0, 1, 3 :: real] ! 0 = 0 \<and>
   [0, 1, 3 :: real] ! (length [0, 1, 3 :: real] - 1) = 3 \<and>
   moment 0 2 3 = 0 \<and> moment 3 2 3 = 0 \<and>
   index (get_bending_moments [0, 1, 3] 2 3) 0 = Inr 0 \<and>
   index (get_bending_moments [0, 1, 3] 2 3) 2 = Inr 0"
  using moment_zero_at_supports [of 2 3 "[0, 1, 3]"] by (simp add: numeral_2_eq_2)

lemma moment_le: "0 < w \<Longrightarrow> moment x w L \<le> w * L\<^sup>2 / 8"
  by (simp add: moment_square)

lemma moment_eq_iff: "0 < w \<Longrightarrow> moment x w L = w * L\<^sup>2 / 8 \<longleftrightarrow> x = L / 2"
  by (simp add: moment_square)

text \<open>
  Claim C5. For a positive load \<open>w\<close> and a positive length \<open>L\<close>, the moment at every
  position \<open>x\<close> of \<open>[0, L]\<close> is at most \<open>w L\<^sup>2 / 8\<close>, with equality exactly at
  \<open>x = L / 2\<close>; hence no element of the moment sequence over a mesh inside \<open>[0, L]\<close>
  exceeds \<open>w L\<^sup>2 / 8\<close>.
\<close>

theorem moment_max_at_midspan:
  assumes "0 < w" "0 < L"
  shows "(0 \<le> x \<and> x \<le> L \<longrightarrow>
            moment x w L \<le> w * L\<^sup>2 / 8 \<and> (moment x w L = w * L\<^sup>2 / 8 \<longleftrightarrow> x = L / 2)) \<and>
         moment (L / 2) w L = w * L\<^sup>2 / 8 \<and>
         ((\<forall>x \<in> set x_axis. 0 \<le> x \<and> x \<le> L) \<longrightarrow>
            (\<forall>m \<in> set (get_bending_moments x_axis w L). m \<le> w * L\<^sup>2 / 8))"
proof -
  have le: "moment y w L \<le> w * L\<^sup>2 / 8" for y
    using assms(1) by (rule moment_le)
  have eq: "moment x w L = w * L\<^sup>2 / 8 \<longleftrightarrow> x = L / 2"
    using assms(1) by (rule moment_eq_iff)
  have mid: "moment (L / 2) w L = w * L\<^sup>2 / 8"
    using moment_eq_iff [OF assms(1), of "L / 2" L] by blast
  have "m \<le> w * L\<^sup>2 / 8" if "m \<in> set (get_bending_moments x_axis w L)" for m
  proof -
    from that obtain y where "m = moment y w L"
      by (auto simp: get_bending_moments_map)
    with le [of y] show ?thesis by blast
  qed
  with le eq mid show ?thesis by blast
qed

theorem moment_max_at_midspan_witness:
  "(0::real) < 2 \<and> (0::real) < 4 \<and> (0::real) \<le> 1 \<and> (1::real) \<le> 4 \<and>
   list_all (\<lambda>x. 0 \<le> x \<and> x \<le> 4) [0, 1, 2, 4 :: real] \<and>
   moment 1 2 4 \<le> 2 * 4\<^sup>2 / 8 \<and> moment 1 2 4 \<noteq> 2 * 4\<^sup>2 / 8 \<and>
   moment (4 / 2) 2 4 = 2 * 4\<^sup>2 / 8 \<and>
   list_all (\<lambda>m. m \<le> 2 * 4\<^sup>2 / 8) (get_bending_moments [0, 1, 2, 4] 2 4)"
  using moment_max_at_midspan [of 2 4 1 "[0, 1, 2, 4]"] by (simp add: list_all_iff)

lemma those_map_Some: "those (map (\<lambda>m. Some (f m)) ms) = Some (map f ms)"
  by (induction ms) simp_all

lemma get_curvatures_nonzero:
  "modulus * inertia \<noteq> 0 \<Longrightarrow>
   get_curvatures bm modulus inertia = Some (map (\<lambda>m. m / (modulus * inertia)) bm)"
  using those_map_Some [of "\<lambda>m. m / (modulus * inertia)" bm]
  by (simp add: get_curvatures_def np_div_def)

lemma get_curvatures_zero:
  "modulus * inertia = 0 \<Longrightarrow> bm \<noteq> [] \<Longrightarrow> get_curvatures bm modulus inertia = None"
  by (cases bm) (simp_all add: get_curvatures_def np_div_def)

lemma get_curvatures_None_iff:
  "get_curvatures bm modulus inertia = None \<longleftrightarrow> modulus * inertia = 0 \<and> bm \<noteq> []"
proof (cases "modulus * inertia = 0")
  case True
  show ?thesis
  proof (cases "bm = []")
    case True
    then show ?thesis by (simp add: get_curvatures_def)
  next
    case False
    with True get_curvatures_zero [of modulus inertia bm] show ?thesis by blast
  qed
next
  case False
  with get_curvatures_nonzero [of modulus inertia bm] show ?thesis by simp
qed

subsection \<open>The seed of the slope integrator\<close>

lemma index_eq_Inr: "index a i = Inr v \<longleftrightarrow> i < length a \<and> a ! i = v"
  by (simp add: index_def)

lemma trapezoid_recurrence_iff:
  "trapezoid_recurrence step kappa seed theta \<longleftrightarrow>
     (theta \<noteq> [] \<longrightarrow> theta ! 0 = seed) \<and>
     (\<forall>i. 0 < i \<and> i < length theta \<longrightarrow>
        theta ! i = theta ! (i - 1) + (step i / 2) * (kappa ! i + kappa ! (i - 1)))"
proof -
  have a: "(case theta of [] \<Rightarrow> True | theta_0 # rest \<Rightarrow> theta_0 = seed)
             \<longleftrightarrow> (theta \<noteq> [] \<longrightarrow> theta ! 0 = seed)"
    by (cases theta) simp_all
  have b: "list_all P [1..<n] \<longleftrightarrow> (\<forall>i. 0 < i \<and> i < n \<longrightarrow> P i)" for P and n :: nat
    by (auto simp: list_all_iff)
  show ?thesis unfolding trapezoid_recurrence_def a b ..
qed

lemma get_slopes_returns:
  "length x_axis \<le> length ks \<Longrightarrow> \<exists>sl. get_slopes dx x_axis ks seed = Inr sl"
  by (auto simp: get_slopes_cases)

text \<open>
  Claim C10. \<open>get_slopes\<close> is affine in its seed: whenever the run with seed \<open>t\<close>
  returns, the run with seed \<open>s\<close> over the same inputs returns too, and its output is the
  other one shifted pointwise by \<open>s - t\<close>.
\<close>

theorem get_slopes_affine_in_seed:
  assumes "get_slopes dx x_axis curvature_list t = Inr slope_t"
  shows "\<exists>slope_s. get_slopes dx x_axis curvature_list s = Inr slope_s \<and>
           length slope_s = length x_axis \<and> length slope_t = length x_axis \<and>
           (\<forall>i < length x_axis. slope_s ! i = (s - t) + slope_t ! i)"
proof -
  have "get_slopes dx x_axis curvature_list (t + (s - t)) = Inr (map (\<lambda>v. v + (s - t)) slope_t)"
    using assms by (rule get_slopes_shift)
  then have "get_slopes dx x_axis curvature_list s = Inr (map (\<lambda>v. v + (s - t)) slope_t)"
    by simp
  moreover have "length slope_t = length x_axis"
    using assms by (rule get_slopes_length)
  ultimately show ?thesis by simp
qed

theorem get_slopes_affine_in_seed_witness:
  "get_slopes 1 [0, 1, 2] [1, 2, 3] 0 = Inr [0, 3 / 2, 4] \<and>
   get_slopes 1 [0, 1, 2] [1, 2, 3] 5 = Inr [5, 13 / 2, 9]"
proof -
  have h: "get_slopes 1 [0, 1, 2] [1, 2, 3] 0 = Inr [0, 3 / 2, 4]"
    by (simp add: get_slopes_cases)
  from get_slopes_affine_in_seed [OF h, of 5] obtain slope_s
    where s: "get_slopes 1 [0, 1, 2] [1, 2, 3] 5 = Inr slope_s"
      and l: "length slope_s = length [0, 1, 2 :: real]"
      and n: "\<forall>i < length [0, 1, 2 :: real]. slope_s ! i = (5 - 0) + [0, 3 / 2, 4] ! i"
    by blast
  from n have "slope_s ! 0 = 5" "slope_s ! 1 = 13 / 2" "slope_s ! 2 = 9"
    by simp_all
  with l have "slope_s = [5, 13 / 2, 9]"
    by (cases slope_s; cases "tl slope_s"; cases "tl (tl slope_s)") (auto simp: numeral_2_eq_2)
  with h s show ?thesis by simp
qed

text \<open>
  Claim C1. The two-pass correction zeroes the slope at the middle index: if \<open>s\<close> is the
  element at index \<open>n div 2\<close> of the slopes computed with seed 0, then the slopes
  recomputed over the same inputs with seed \<open>0 - s\<close> exist and are exactly 0 at index
  \<open>n div 2\<close>; they are what lines 76 to 84 of \<open>main\<close> compute.
\<close>

theorem two_pass_zeroes_midspan_slope:
  assumes "get_slopes dx x_axis curvature_list 0 = Inr slope_list"
    and "index slope_list (length slope_list div 2) = Inr slope_midspan"
  shows "\<exists>slope_list'.
           get_slopes dx x_axis curvature_list (0 - slope_midspan) = Inr slope_list' \<and>
           corrected_slopes dx x_axis curvature_list = Inr slope_list' \<and>
           length slope_list' = length slope_list \<and>
           index slope_list' (length slope_list' div 2) = Inr 0"
proof -
  let ?c = "0 - slope_midspan"
  let ?sl = "map (\<lambda>v. v + ?c) slope_list"
  have run: "get_slopes dx x_axis curvature_list (0 + ?c) = Inr ?sl"
    using assms(1) by (rule get_slopes_shift)
  from assms(2) have mid: "length slope_list div 2 < length slope_list"
    and val: "slope_list ! (length slope_list div 2) = slope_midspan"
    by (simp_all add: index_eq_Inr)
  have "index ?sl (length ?sl div 2) = Inr 0"
    using mid val by (simp add: index_eq_Inr)
  moreover have "corrected_slopes dx x_axis curvature_list = Inr ?sl"
    using assms run by (simp add: corrected_slopes_def)
  ultimately show ?thesis using run by simp
qed

theorem two_pass_zeroes_midspan_slope_witness:
  "get_slopes 1 [0, 1, 2] [1, 2, 3] 0 = Inr [0, 3 / 2, 4] \<and>
   index [0, 3 / 2, 4 :: real] (length [0, 3 / 2, 4 :: real] div 2) = Inr (3 / 2) \<and>
   corrected_slopes 1 [0, 1, 2] [1, 2, 3] = Inr [- (3 / 2), 0, 5 / 2] \<and>
   index [- (3 / 2), 0, 5 / 2 :: real] 1 = Inr 0"
proof -
  have h: "get_slopes 1 [0, 1, 2] [1, 2, 3] 0 = Inr [0, 3 / 2, 4]"
    by (simp add: get_slopes_cases)
  have m: "index [0, 3 / 2, 4 :: real] (length [0, 3 / 2, 4 :: real] div 2) = Inr (3 / 2)"
    by (simp add: index_def)
  from two_pass_zeroes_midspan_slope [OF h m]
  have "corrected_slopes 1 [0, 1, 2] [1, 2, 3] = get_slopes 1 [0, 1, 2] [1, 2, 3] (0 - 3 / 2)"
    by auto
  with h m show ?thesis by (simp add: get_slopes_cases index_def)
qed

subsection \<open>The recurrence of the slope integrator\<close>

text \<open>
  Claim C3, as stated, asks for the recurrence with the local step \<open>x\<^sub>i - x\<^sub>i\<^sub>-\<^sub>1\<close>. On the
  mesh of a span of 1.5 with step 1, whose final interval is 0.5, the integrator adds
  \<open>(1 / 2) (\<kappa>\<^sub>2 + \<kappa>\<^sub>1)\<close> over that interval, not \<open>(0.5 / 2) (\<kappa>\<^sub>2 + \<kappa>\<^sub>1)\<close>.
\<close>

theorem get_slopes_local_step_counterexample:
  "space_mesh (3 / 2) 1 = Inr [0, 1, 3 / 2] \<and>
   get_slopes 1 [0, 1, 3 / 2] [1, 1, 1] 0 = Inr [0, 1, 2] \<and>
   \<not> trapezoid_recurrence (local_step [0, 1, 3 / 2]) [1, 1, 1] 0 [0, 1, 2]"
  by (simp add: space_mesh_def arange_def get_slopes_cases trapezoid_recurrence_def
      local_step_def upt_rec numeral_2_eq_2
      sample_count_def float64_def float64_pos.simps round_half_even_def)

text \<open>
  Claim C3, amended. The slope integrator follows the trapezoidal recurrence with the
  nominal step \<open>dx\<close> it is given: its output \<open>\<theta>\<close> has the length of the mesh,
  \<open>\<theta>\<^sub>0\<close> is the seed and \<open>\<theta>\<^sub>i = \<theta>\<^sub>i\<^sub>-\<^sub>1 + (dx / 2) (\<kappa>\<^sub>i + \<kappa>\<^sub>i\<^sub>-\<^sub>1)\<close> for every \<open>i \<ge> 1\<close>. The mesh
  enters through its length only; the step is the local one wherever consecutive mesh
  points are \<open>dx\<close> apart.
\<close>

theorem get_slopes_nominal_step:
  assumes "get_slopes dx x_axis kappa seed = Inr theta"
  shows "length theta = length x_axis \<and>
         trapezoid_recurrence (nominal_step dx) kappa seed theta \<and>
         (list_all (\<lambda>i. local_step x_axis i = dx) [1..<length x_axis] \<longrightarrow>
            trapezoid_recurrence (local_step x_axis) kappa seed theta)"
proof -
  have len: "length theta = length x_axis"
    using assms by (rule get_slopes_length)
  have seed: "theta \<noteq> [] \<longrightarrow> theta ! 0 = seed"
  proof
    assume "theta \<noteq> []"
    with len have "x_axis \<noteq> []" by auto
    with assms show "theta ! 0 = seed" by (rule get_slopes_seed)
  qed
  have step: "theta ! i = theta ! (i - 1) + (dx / 2) * (kappa ! i + kappa ! (i - 1))"
    if "0 < i" "i < length theta" for i
    using get_slopes_step [OF assms, of i] that len by simp
  have nominal: "trapezoid_recurrence (nominal_step dx) kappa seed theta"
    unfolding trapezoid_recurrence_iff nominal_step_def using seed step by blast
  have "trapezoid_recurrence (local_step x_axis) kappa seed theta"
    if "list_all (\<lambda>i. local_step x_axis i = dx) [1..<length x_axis]"
  proof -
    from that have "local_step x_axis i = dx" if "0 < i" "i < length theta" for i
      using that len by (simp add: list_all_iff)
    then show ?thesis
      unfolding trapezoid_recurrence_iff using seed step by simp
  qed
  with len nominal show ?thesis by blast
qed

theorem get_slopes_nominal_step_witness:
  "get_slopes 1 [0, 1, 2] [1, 2, 3] 0 = Inr [0, 3 / 2, 4] \<and>
   list_all (\<lambda>i. local_step [0, 1, 2] i = 1) [1..<length [0, 1, 2 :: real]] \<and>
   length [0, 3 / 2, 4 :: real] = length [0, 1, 2 :: real] \<and>
   trapezoid_recurrence (nominal_step 1) [1, 2, 3] 0 [0, 3 / 2, 4] \<and>
   trapezoid_recurrence (local_step [0, 1, 2]) [1, 2, 3] 0 [0, 3 / 2, 4]"
proof -
  have h: "get_slopes 1 [0, 1, 2] [1, 2, 3] 0 = Inr [0, 3 / 2, 4]"
    by (simp add: get_slopes_cases)
  have u: "list_all (\<lambda>i. local_step [0, 1, 2] i = 1) [1..<length [0, 1, 2 :: real]]"
    by (simp add: local_step_def upt_rec)
  from get_slopes_nominal_step [OF h] u h show ?thesis by simp
qed

subsection \<open>Index alignment\<close>

lemma get_deflections_length:
  "get_deflections dx x_axis sl = Inr d \<Longrightarrow> length d = length x_axis"
  unfolding get_deflections_get_slopes by (rule get_slopes_length)

lemma get_curvatures_length:
  assumes "get_curvatures bm modulus inertia = Some ks"
  shows "length ks = length bm"
proof (cases "modulus * inertia = 0")
  case True
  show ?thesis
  proof (cases "bm = []")
    case True
    with assms show ?thesis by (simp add: get_curvatures_def)
  next
    case False
    with \<open>modulus * inertia = 0\<close> have "get_curvatures bm modulus inertia = None"
      by (rule get_curvatures_zero)
    with assms show ?thesis by simp
  qed
next
  case False
  with assms get_curvatures_nonzero [of modulus inertia bm] show ?thesis by auto
qed

text \<open>
  Claim C8. Every stage returns a sequence of the length of the mesh: the moments always,
  and, from a curvature array of real numbers, the curvatures, the slopes and the
  deflections, which the two integrators then do return. Taken alone, each integrator
  returns a sequence of the length of the mesh whenever it returns.
\<close>

theorem stages_keep_mesh_length:
  "length (get_bending_moments x_axis load len) = length x_axis \<and>
   (get_curvatures (get_bending_moments x_axis load len) modulus inertia = Some curvature_list
      \<longrightarrow> length curvature_list = length x_axis \<and>
          (\<exists>slope_list deflection_list.
             get_slopes dx x_axis curvature_list slope_init = Inr slope_list \<and>
             length slope_list = length x_axis \<and>
             get_deflections dx x_axis slope_list = Inr deflection_list \<and>
             length deflection_list = length x_axis)) \<and>
   (get_slopes dx x_axis ks slope_init = Inr sl \<longrightarrow> length sl = length x_axis) \<and>
   (get_deflections dx x_axis sl' = Inr d \<longrightarrow> length d = length x_axis)"
proof -
  have bm: "length (get_bending_moments x_axis load len) = length x_axis"
    by (simp add: get_bending_moments_map)
  have pipeline: "length curvature_list = length x_axis \<and>
          (\<exists>slope_list deflection_list.
             get_slopes dx x_axis curvature_list slope_init = Inr slope_list \<and>
             length slope_list = length x_axis \<and>
             get_deflections dx x_axis slope_list = Inr deflection_list \<and>
             length deflection_list = length x_axis)"
    if c: "get_curvatures (get_bending_moments x_axis load len) modulus inertia
             = Some curvature_list"
  proof -
    from get_curvatures_length [OF c] bm have k: "length curvature_list = length x_axis"
      by simp
    then obtain slope_list where s: "get_slopes dx x_axis curvature_list slope_init = Inr slope_list"
      using get_slopes_returns [of x_axis curvature_list dx slope_init] by auto
    from get_slopes_length [OF s] have sl: "length slope_list = length x_axis" .
    then obtain deflection_list where d: "get_slopes dx x_axis slope_list 0 = Inr deflection_list"
      using get_slopes_returns [of x_axis slope_list dx 0] by auto
    from get_slopes_length [OF d] have "length deflection_list = length x_axis" .
    with k s sl d show ?thesis by (simp add: get_deflections_get_slopes)
  qed
  from bm pipeline get_slopes_length [of dx x_axis ks slope_init sl]
    get_deflections_length [of dx x_axis sl' d]
  show ?thesis by blast
qed

theorem stages_keep_mesh_length_witness:
  "length (get_bending_moments [0, 1, 2] 2 2) = length [0, 1, 2 :: real] \<and>
   get_curvatures (get_bending_moments [0, 1, 2] 2 2) 1 1 = Some [0, 1, 0] \<and>
   get_slopes 1 [0, 1, 2] [0, 1, 0] 0 = Inr [0, 1 / 2, 1] \<and>
   get_deflections 1 [0, 1, 2] [0, 1 / 2, 1] = Inr [0, 1 / 4, 1] \<and>
   length [0, 1 / 4, 1 :: real] = length [0, 1, 2 :: real]"
  using stages_keep_mesh_length [of "[0, 1, 2]" 2 2 1 1 "[0, 1, 0]" 1 0 "[0, 1, 0]"
      "[0, 1 / 2, 1]" "[0, 1 / 2, 1]" "[0, 1 / 4, 1]"]
  by (simp add: get_bending_moments_map moment_def get_curvatures_def np_div_def
      get_slopes_cases get_deflections_get_slopes)

subsection \<open>The run of the entry routine\<close>

lemma main_values:
  "map_sum id (\<lambda>r. (plotted_x_axis r ! 50, length (plotted_x_axis r), plotted_slope r ! 25,
      length (plotted_slope r),
      plotted_deflection r ! 0, plotted_deflection r ! 25, plotted_deflection r ! 50,
      length (plotted_deflection r),
      printed_deflection_mid r, printed_deflection_mid_theor r, printed_error r)) main
   = Inr (5, 51, 0, 51, 0, - (347 / 400000), 0, 51, - (347 / 400000), - (1 / 1152), Some (- (2 / 3125)))"
  by (simp add: main_def run_def space_mesh_def arange_def get_bending_moments_map moment_def
     get_curvatures_def np_div_def corrected_slopes_def get_deflections_get_slopes get_slopes_cases
     index_def py_div_def upt_rec power3_eq_cube
     sample_count_def float64_def float64_pos.simps round_half_even_def)

lemma main_returns:
  obtains r where "main = Inr r"
    and "length (plotted_x_axis r) = 51" and "plotted_x_axis r ! 50 = 5"
    and "length (plotted_slope r) = 51" and "plotted_slope r ! 25 = 0"
    and "length (plotted_deflection r) = 51"
    and "plotted_deflection r ! 0 = 0" and "plotted_deflection r ! 25 = - (347 / 400000)"
    and "plotted_deflection r ! 50 = 0"
    and "printed_deflection_mid r = - (347 / 400000)"
    and "printed_deflection_mid_theor r = - (1 / 1152)"
    and "printed_error r = Some (- (2 / 3125))"
proof (cases main)
  case (Inl e)
  from main_values [unfolded Inl] show ?thesis by simp
next
  case (Inr r)
  from main_values [unfolded Inr] that [OF Inr] show ?thesis by simp
qed

text \<open>
  Claim C6. The deflection is zero at both supports. The first element of every non-empty
  sequence returned by \<open>get_deflections\<close> is exactly 0, the seed. In the run of \<open>main\<close>
  the mesh ends at \<open>x = 5\<close>, the length of the span, and the deflection at that last
  index is exactly 0 as well.
\<close>

theorem deflection_zero_at_supports:
  "(get_deflections dx x_axis slope_list = Inr deflection_list \<longrightarrow> x_axis \<noteq> [] \<longrightarrow>
      index deflection_list 0 = Inr 0) \<and>
   (\<exists>r. main = Inr r \<and>
      index (plotted_x_axis r) (length (plotted_x_axis r) - 1) = Inr 5 \<and>
      length (plotted_deflection r) = length (plotted_x_axis r) \<and>
      index (plotted_deflection r) 0 = Inr 0 \<and>
      index (plotted_deflection r) (length (plotted_deflection r) - 1) = Inr 0)"
proof -
  have first: "index deflection_list 0 = Inr 0"
    if d: "get_deflections dx x_axis slope_list = Inr deflection_list" and x: "x_axis \<noteq> []"
  proof -
    from d have g: "get_slopes dx x_axis slope_list 0 = Inr deflection_list"
      by (simp add: get_deflections_get_slopes)
    from get_slopes_length [OF g] get_slopes_seed [OF g x] x show ?thesis
      by (simp add: index_eq_Inr)
  qed
  obtain r where "main = Inr r"
    and "length (plotted_x_axis r) = 51" and "plotted_x_axis r ! 50 = 5"
    and "length (plotted_deflection r) = 51"
    and "plotted_deflection r ! 0 = 0" and "plotted_deflection r ! 50 = 0"
    by (rule main_returns)
  then have "main = Inr r \<and>
      index (plotted_x_axis r) (length (plotted_x_axis r) - 1) = Inr 5 \<and>
      length (plotted_deflection r) = length (plotted_x_axis r) \<and>
      index (plotted_deflection r) 0 = Inr 0 \<and>
      index (plotted_deflection r) (length (plotted_deflection r) - 1) = Inr 0"
    by (simp add: index_eq_Inr)
  with first show ?thesis by blast
qed

theorem deflection_zero_at_supports_witness:
  "get_deflections 1 [0, 1, 2] [- 1, 0, 1] = Inr [0, - (1 / 2), 0] \<and>
   [0, 1, 2] \<noteq> ([] :: real list) \<and>
   index [0, - (1 / 2), 0 :: real] 0 = Inr 0"
  using deflection_zero_at_supports [of 1 "[0, 1, 2]" "[- 1, 0, 1]" "[0, - (1 / 2), 0]"]
  by (simp add: get_deflections_get_slopes get_slopes_cases)

text \<open>
  Claim C2. For the constants of \<open>main\<close> the deflection at the middle index agrees with
  the closed form \<open>- (5 / 384) (w L\<^sup>4) / (E I)\<close> to within 1 percent of relative error: the
  run returns, the printed deflection is the element at index \<open>n div 2\<close>, the printed
  theoretical value is the closed form, and their distance is less than a hundredth of
  the absolute theoretical value.
\<close>

theorem main_midspan_deflection:
  "\<exists>r. main = Inr r \<and>
      index (plotted_deflection r) (length (plotted_deflection r) div 2)
        = Inr (printed_deflection_mid r) \<and>
      printed_deflection_mid_theor r
        = - (5 / 384) * (10 ^ 4 * 5 ^ 4) / (30 * 10 ^ 9 * ((1 / 12) * 0.3 * 0.5 ^ 3)) \<and>
      \<bar>printed_deflection_mid r - printed_deflection_mid_theor r\<bar>
        / \<bar>printed_deflection_mid_theor r\<bar> < 0.01"
proof -
  obtain r where "main = Inr r"
    and "length (plotted_deflection r) = 51"
    and "plotted_deflection r ! 25 = - (347 / 400000)"
    and "printed_deflection_mid r = - (347 / 400000)"
    and "printed_deflection_mid_theor r = - (1 / 1152)"
    by (rule main_returns)
  then have "main = Inr r \<and>
      index (plotted_deflection r) (length (plotted_deflection r) div 2)
        = Inr (printed_deflection_mid r) \<and>
      printed_deflection_mid_theor r
        = - (5 / 384) * (10 ^ 4 * 5 ^ 4) / (30 * 10 ^ 9 * ((1 / 12) * 0.3 * 0.5 ^ 3)) \<and>
      \<bar>printed_deflection_mid r - printed_deflection_mid_theor r\<bar>
        / \<bar>printed_deflection_mid_theor r\<bar> < 0.01"
    by (simp add: index_eq_Inr power3_eq_cube)
  then show ?thesis ..
qed

subsection \<open>The mesh\<close>







subsection \<open>The unguarded flexural rigidity\<close>







end
